theory Spec2Isabelle
  imports Complex_Main "HOL-Library.Log_Nat"
begin

section \<open>JavaScript numbers\<close>

text \<open>
  The program computes with JavaScript \<open>number\<close>s. A finite number is idealised as a
  real (\<open>Num\<close>): rounding, overflow and the sign of zero are outside the model, except
  for the smoother, which is modelled a second time with binary64 rounding below. The
  three non-finite values are kept, because the program divides without checking the
  divisor and JavaScript does not raise on a zero divisor: it returns \<open>Infinity\<close>,
  \<open>-Infinity\<close> or \<open>NaN\<close>, which then flow through the rest of the arithmetic.
  A zero is read as \<open>+0\<close>.
\<close>

datatype jsnum = Num real | PosInf | NegInf | NaN

fun finiteNum :: "jsnum \<Rightarrow> bool" where
  "finiteNum (Num a) = True"
| "finiteNum PosInf = False"
| "finiteNum NegInf = False"
| "finiteNum NaN = False"

fun signedInf :: "bool \<Rightarrow> jsnum" where
  "signedInf True = PosInf"
| "signedInf False = NegInf"

text \<open>The sign of a value that is neither \<open>NaN\<close> nor zero.\<close>

fun positive :: "jsnum \<Rightarrow> bool" where
  "positive (Num a) = (0 < a)"
| "positive PosInf = True"
| "positive NegInf = False"
| "positive NaN = False"

fun jsneg :: "jsnum \<Rightarrow> jsnum" where
  "jsneg (Num a) = Num (- a)"
| "jsneg PosInf = NegInf"
| "jsneg NegInf = PosInf"
| "jsneg NaN = NaN"

text \<open>\<open>a + b\<close>: opposite infinities give \<open>NaN\<close>.\<close>

fun jsadd :: "jsnum \<Rightarrow> jsnum \<Rightarrow> jsnum" where
  "jsadd (Num a) (Num b) = Num (a + b)"
| "jsadd (Num a) PosInf = PosInf"
| "jsadd (Num a) NegInf = NegInf"
| "jsadd PosInf (Num b) = PosInf"
| "jsadd PosInf PosInf = PosInf"
| "jsadd PosInf NegInf = NaN"
| "jsadd NegInf (Num b) = NegInf"
| "jsadd NegInf PosInf = NaN"
| "jsadd NegInf NegInf = NegInf"
| "jsadd NaN b = NaN"
| "jsadd a NaN = NaN"

definition jssub :: "jsnum \<Rightarrow> jsnum \<Rightarrow> jsnum" where
  "jssub a b = jsadd a (jsneg b)"

text \<open>\<open>a * b\<close>: an infinity times zero is \<open>NaN\<close>.\<close>

fun jsmul :: "jsnum \<Rightarrow> jsnum \<Rightarrow> jsnum" where
  "jsmul (Num a) (Num b) = Num (a * b)"
| "jsmul NaN b = NaN"
| "jsmul a NaN = NaN"
| "jsmul a b =
     (if a = Num 0 \<or> b = Num 0 then NaN else signedInf (positive a = positive b))"

text \<open>
  \<open>a / b\<close>: a zero divisor gives \<open>NaN\<close> for a zero dividend and an infinity otherwise;
  a finite number over an infinity is zero; an infinity over an infinity is \<open>NaN\<close>.
\<close>

fun jsdiv :: "jsnum \<Rightarrow> jsnum \<Rightarrow> jsnum" where
  "jsdiv (Num a) (Num b) =
     (if b \<noteq> 0 then Num (a / b) else if a = 0 then NaN else signedInf (0 < a))"
| "jsdiv NaN b = NaN"
| "jsdiv a NaN = NaN"
| "jsdiv (Num a) b = Num 0"
| "jsdiv a (Num b) = signedInf (positive a = (0 \<le> b))"
| "jsdiv a b = NaN"

text \<open>\<open>a >= b\<close>: false as soon as one side is \<open>NaN\<close>.\<close>

fun jsge :: "jsnum \<Rightarrow> jsnum \<Rightarrow> bool" where
  "jsge (Num a) (Num b) = (b \<le> a)"
| "jsge NaN b = False"
| "jsge a NaN = False"
| "jsge PosInf b = True"
| "jsge a NegInf = True"
| "jsge a b = False"

text \<open>\<open>Math.min\<close> and \<open>Math.max\<close> return \<open>NaN\<close> when an argument is \<open>NaN\<close>.\<close>

definition Math_min :: "jsnum \<Rightarrow> jsnum \<Rightarrow> jsnum" where
  "Math_min a b = (if a = NaN \<or> b = NaN then NaN else if jsge a b then b else a)"

definition Math_max :: "jsnum \<Rightarrow> jsnum \<Rightarrow> jsnum" where
  "Math_max a b = (if a = NaN \<or> b = NaN then NaN else if jsge a b then a else b)"

text \<open>Membership in the closed interval from 0 to 1; no non-finite value is in it.\<close>

definition in01 :: "jsnum \<Rightarrow> bool" where
  "in01 v = (jsge v (Num 0) \<and> jsge (Num 1) v)"

section \<open>Constants\<close>

definition NOSE_KEYPOINT :: nat where "NOSE_KEYPOINT = 0"
definition LEFT_EAR_KEYPOINT :: nat where "LEFT_EAR_KEYPOINT = 3"
definition RIGHT_EAR_KEYPOINT :: nat where "RIGHT_EAR_KEYPOINT = 4"
definition LEFT_SHOULDER_KEYPOINT :: nat where "LEFT_SHOULDER_KEYPOINT = 5"
definition RIGHT_SHOULDER_KEYPOINT :: nat where "RIGHT_SHOULDER_KEYPOINT = 6"

definition POSE_CONFIDENCE_THRESHOLD :: jsnum where
  "POSE_CONFIDENCE_THRESHOLD = Num (3 / 10)"

definition POSE_LERP_FACTOR :: jsnum where
  "POSE_LERP_FACTOR = Num (1 / 10)"

definition Y_MIN :: jsnum where "Y_MIN = Num (6 / 10)"
definition Y_MAX :: jsnum where "Y_MAX = Num (14 / 10)"

section \<open>Data\<close>

text \<open>
  A \<open>Keypoint\<close> of the pose library has the fields \<open>x\<close>, \<open>y\<close>, \<open>z?\<close>, \<open>score?\<close> and
  \<open>name?\<close>; the program reads \<open>x\<close>, \<open>y\<close> and \<open>score\<close>. The selectors carry the prefix
  \<open>kp_\<close> so that \<open>x\<close> and \<open>y\<close> stay usable as variables. An absent score is \<open>None\<close>.
  Of a \<open>Pose\<close> the program reads the \<open>keypoints\<close> array only.
\<close>

record Keypoint =
  kp_x :: jsnum
  kp_y :: jsnum
  kp_score :: "jsnum option"

record Pose =
  keypoints :: "Keypoint list"

text \<open>
  The fields of \<open>App\<close> that \<open>runPrediction\<close> reads or writes. \<open>poseDetector\<close> is
  \<open>True\<close> when the field holds a detector and \<open>False\<close> when it is \<open>null\<close>. The canvas
  fields (\<open>width\<close>, \<open>height\<close>, \<open>ctx\<close>) are used by \<open>draw\<close> and \<open>updateCanvas\<close> only.
\<close>

record App =
  cameraLoaded :: bool
  poseDetector :: bool
  xInput :: jsnum
  yInput :: jsnum

datatype error = PoseDetectorNotInitialized | CameraNotLoaded | TypeError

text \<open>
  A call either returns or throws; the object keeps the writes made before the throw.
\<close>

datatype outcome = Returned App | Threw error App

section \<open>The temporal smoother\<close>

definition pushXInput :: "jsnum \<Rightarrow> App \<Rightarrow> App" where
  "pushXInput v app =
     app\<lparr>xInput := jsadd (xInput app) (jsmul (jssub v (xInput app)) POSE_LERP_FACTOR)\<rparr>"

definition pushYInput :: "jsnum \<Rightarrow> App \<Rightarrow> App" where
  "pushYInput v app =
     app\<lparr>yInput := jsadd (yInput app) (jsmul (jssub v (yInput app)) POSE_LERP_FACTOR)\<rparr>"

section \<open>The smoother in binary64 arithmetic\<close>












section \<open>The control signal extractor\<close>

text \<open>
  \<open>keypoints[i]\<close>: reading a JavaScript array beyond its length gives \<open>undefined\<close>
  (\<open>None\<close>) and does not throw.
\<close>

definition keypointAt :: "Keypoint list \<Rightarrow> nat \<Rightarrow> Keypoint option" where
  "keypointAt kps i = (if i < length kps then Some (kps ! i) else None)"

text \<open>
  \<open>k.score! >= POSE_CONFIDENCE_THRESHOLD\<close>. Reading a property of \<open>undefined\<close> throws
  a \<open>TypeError\<close>. The \<open>!\<close> is erased at run time; an absent score is \<open>undefined\<close>, which
  the comparison converts to \<open>NaN\<close>, so the comparison is false.
\<close>

definition meetsThreshold :: "Keypoint \<Rightarrow> bool" where
  "meetsThreshold k =
     (case kp_score k of None \<Rightarrow> False | Some s \<Rightarrow> jsge s POSE_CONFIDENCE_THRESHOLD)"

definition confident :: "Keypoint option \<Rightarrow> error + bool" where
  "confident k = (case k of None \<Rightarrow> Inl TypeError | Some kp \<Rightarrow> Inr (meetsThreshold kp))"

text \<open>
  A chain \<open>c1 && c2 && ...\<close>: the conjuncts are evaluated from the left, and the first
  one that is false or throws ends the evaluation.
\<close>

fun allOf :: "(error + bool) list \<Rightarrow> error + bool" where
  "allOf [] = Inr True"
| "allOf (Inl e # cs) = Inl e"
| "allOf (Inr False # cs) = Inr False"
| "allOf (Inr True # cs) = allOf cs"

text \<open>
  The horizontal block. \<open>xRatio\<close> is the expression passed to \<open>pushXInput\<close> when the
  three confidences meet the threshold; \<open>xRaw\<close> is the argument of the \<open>pushXInput\<close>
  call of the one-pose branch, or the error thrown while the condition is evaluated.
\<close>

definition xRatio :: "Keypoint \<Rightarrow> Keypoint \<Rightarrow> Keypoint \<Rightarrow> jsnum" where
  "xRatio nose leftShoulder rightShoulder =
     jsdiv (jssub (kp_x nose) (kp_x leftShoulder))
           (jssub (kp_x rightShoulder) (kp_x leftShoulder))"

definition xRaw :: "Keypoint option \<Rightarrow> Keypoint option \<Rightarrow> Keypoint option \<Rightarrow> error + jsnum" where
  "xRaw nose leftShoulder rightShoulder =
     (case allOf [confident nose, confident leftShoulder, confident rightShoulder] of
        Inl e \<Rightarrow> Inl e
      | Inr False \<Rightarrow> Inr (Num (1 / 2))
      | Inr True \<Rightarrow>
          (case (nose, leftShoulder, rightShoulder) of
             (Some n, Some l, Some r) \<Rightarrow> Inr (xRatio n l r)
           | _ \<Rightarrow> Inl TypeError))"

text \<open>
  The vertical block. \<open>yClamped\<close> is the body of the \<open>if\<close>: the four local constants
  and the clamped value passed to \<open>pushYInput\<close>. \<open>yRaw\<close> is the argument of the
  \<open>pushYInput\<close> call when the five confidences meet the threshold, \<open>None\<close> for the
  empty \<open>else\<close> branch, which pushes nothing, or the error thrown by the condition.
\<close>

definition yClamped ::
  "Keypoint \<Rightarrow> Keypoint \<Rightarrow> Keypoint \<Rightarrow> Keypoint \<Rightarrow> Keypoint \<Rightarrow> jsnum" where
  "yClamped leftShoulder rightShoulder leftEar rightEar nose =
     (let shoulderY = jsdiv (jsadd (kp_y leftShoulder) (kp_y rightShoulder)) (Num 2);
          earY = jsdiv (jsadd (kp_y leftEar) (kp_y rightEar)) (Num 2);
          y = jsdiv (jssub (kp_y nose) shoulderY) (jssub earY shoulderY);
          yScaled = jsdiv (jssub y Y_MIN) (jssub Y_MAX Y_MIN)
      in Math_max (Num 0) (Math_min (Num 1) yScaled))"

definition yRaw ::
  "Keypoint option \<Rightarrow> Keypoint option \<Rightarrow> Keypoint option \<Rightarrow> Keypoint option \<Rightarrow>
   Keypoint option \<Rightarrow> error + jsnum option" where
  "yRaw leftShoulder rightShoulder leftEar rightEar nose =
     (case allOf [confident leftShoulder, confident rightShoulder, confident leftEar,
                  confident rightEar, confident nose] of
        Inl e \<Rightarrow> Inl e
      | Inr False \<Rightarrow> Inr None
      | Inr True \<Rightarrow>
          (case (leftShoulder, rightShoulder, leftEar, rightEar, nose) of
             (Some ls, Some rs, Some le, Some re, Some n) \<Rightarrow>
               Inr (Some (yClamped ls rs le re n))
           | _ \<Rightarrow> Inl TypeError))"

text \<open>
  \<open>runPrediction\<close>, with the awaited result of \<open>estimatePoses\<close> as the argument \<open>poses\<close>.
  The final \<open>draw\<close> paints the canvas from \<open>xInput\<close> and \<open>yInput\<close> and writes neither.
\<close>

definition runPrediction :: "App \<Rightarrow> Pose list \<Rightarrow> outcome" where
  "runPrediction app poses =
     (if \<not> poseDetector app then Threw PoseDetectorNotInitialized app
      else if \<not> cameraLoaded app then Threw CameraNotLoaded app
      else if length poses = 1 then
        (let pose = poses ! 0;
             nose = keypointAt (keypoints pose) NOSE_KEYPOINT;
             leftShoulder = keypointAt (keypoints pose) LEFT_SHOULDER_KEYPOINT;
             rightShoulder = keypointAt (keypoints pose) RIGHT_SHOULDER_KEYPOINT
         in case xRaw nose leftShoulder rightShoulder of
              Inl e \<Rightarrow> Threw e app
            | Inr rx \<Rightarrow>
                (let app1 = pushXInput rx app;
                     leftEar = keypointAt (keypoints pose) LEFT_EAR_KEYPOINT;
                     rightEar = keypointAt (keypoints pose) RIGHT_EAR_KEYPOINT
                 in case yRaw leftShoulder rightShoulder leftEar rightEar nose of
                      Inl e \<Rightarrow> Threw e app1
                    | Inr None \<Rightarrow> Returned app1
                    | Inr (Some ry) \<Rightarrow> Returned (pushYInput ry app1)))
      else Returned (pushYInput (Num (1 / 2)) (pushXInput (Num (1 / 2)) app)))"

section \<open>The calls a frame makes\<close>

text \<open>
  The same control flow, recording the smoother calls that \<open>runPrediction\<close> makes once
  its two entry checks have passed, in order, together with the error that ended the
  frame, if any. The raw estimates of a frame are the arguments of these calls.
\<close>

datatype call = PushX jsnum | PushY jsnum

fun exec :: "call \<Rightarrow> App \<Rightarrow> App" where
  "exec (PushX v) app = pushXInput v app"
| "exec (PushY v) app = pushYInput v app"

definition pushes :: "Pose list \<Rightarrow> call list \<times> error option" where
  "pushes poses =
     (if length poses = 1 then
        (let pose = poses ! 0;
             nose = keypointAt (keypoints pose) NOSE_KEYPOINT;
             leftShoulder = keypointAt (keypoints pose) LEFT_SHOULDER_KEYPOINT;
             rightShoulder = keypointAt (keypoints pose) RIGHT_SHOULDER_KEYPOINT
         in case xRaw nose leftShoulder rightShoulder of
              Inl e \<Rightarrow> ([], Some e)
            | Inr rx \<Rightarrow>
                (let leftEar = keypointAt (keypoints pose) LEFT_EAR_KEYPOINT;
                     rightEar = keypointAt (keypoints pose) RIGHT_EAR_KEYPOINT
                 in case yRaw leftShoulder rightShoulder leftEar rightEar nose of
                      Inl e \<Rightarrow> ([PushX rx], Some e)
                    | Inr None \<Rightarrow> ([PushX rx], None)
                    | Inr (Some ry) \<Rightarrow> ([PushX rx, PushY ry], None)))
      else ([PushX (Num (1 / 2)), PushY (Num (1 / 2))], None))"

fun xArgs :: "call list \<Rightarrow> jsnum list" where
  "xArgs [] = []"
| "xArgs (PushX v # cs) = v # xArgs cs"
| "xArgs (PushY v # cs) = xArgs cs"

fun yArgs :: "call list \<Rightarrow> jsnum list" where
  "yArgs [] = []"
| "yArgs (PushX v # cs) = yArgs cs"
| "yArgs (PushY v # cs) = v # yArgs cs"

section \<open>Sample frames\<close>

text \<open>A keypoint with finite coordinates and a numeric score.\<close>

definition keypoint :: "real \<Rightarrow> real \<Rightarrow> real \<Rightarrow> Keypoint" where
  "keypoint a b s = \<lparr>kp_x = Num a, kp_y = Num b, kp_score = Some (Num s)\<rparr>"

text \<open>The object once detector and camera are set up, with both signals at their initial 0.5.\<close>

definition readyApp :: App where
  "readyApp = \<lparr>cameraLoaded = True, poseDetector = True,
                xInput = Num (1 / 2), yInput = Num (1 / 2)\<rparr>"

text \<open>
  A head centred between the shoulders (nose, eyes, ears, shoulders, in the order of
  the detector's keypoint array), every keypoint seen with confidence 0.9.
\<close>

definition centredPose :: Pose where
  "centredPose = \<lparr>keypoints =
     [keypoint 300 100 (9 / 10), keypoint 310 90 (9 / 10), keypoint 290 90 (9 / 10),
      keypoint 330 100 (9 / 10), keypoint 270 100 (9 / 10),
      keypoint 400 300 (9 / 10), keypoint 200 300 (9 / 10)]\<rparr>"

text \<open>The nose far outside the shoulder span: shoulders at x = 0 and x = 1, nose at x = 11.\<close>

definition leaningPose :: Pose where
  "leaningPose = \<lparr>keypoints =
     [keypoint 11 100 1, keypoint 12 90 1, keypoint 10 90 1,
      keypoint 13 100 1, keypoint 9 100 1,
      keypoint 0 300 1, keypoint 1 300 1]\<rparr>"

text \<open>The centred head with the left ear seen at confidence 0.1 only.\<close>

definition lowEarPose :: Pose where
  "lowEarPose = \<lparr>keypoints =
     [keypoint 300 100 (9 / 10), keypoint 310 90 (9 / 10), keypoint 290 90 (9 / 10),
      keypoint 330 100 (1 / 10), keypoint 270 100 (9 / 10),
      keypoint 400 300 (9 / 10), keypoint 200 300 (9 / 10)]\<rparr>"

text \<open>The centred head with the right shoulder seen at confidence 0.2 only.\<close>

definition hiddenShoulderPose :: Pose where
  "hiddenShoulderPose = \<lparr>keypoints =
     [keypoint 300 100 (9 / 10), keypoint 310 90 (9 / 10), keypoint 290 90 (9 / 10),
      keypoint 330 100 (9 / 10), keypoint 270 100 (9 / 10),
      keypoint 400 300 (9 / 10), keypoint 200 300 (2 / 10)]\<rparr>"

text \<open>Every keypoint detected at the same point, with full confidence.\<close>

definition collapsedPose :: Pose where
  "collapsedPose = \<lparr>keypoints = replicate 7 (keypoint 0 0 1)\<rparr>"

text \<open>Both shoulders at the same x, the nose elsewhere; the vertical geometry is regular.\<close>

definition sidewaysPose :: Pose where
  "sidewaysPose = \<lparr>keypoints =
     [keypoint 300 100 (9 / 10), keypoint 310 90 (9 / 10), keypoint 290 90 (9 / 10),
      keypoint 330 100 (9 / 10), keypoint 270 100 (9 / 10),
      keypoint 200 300 (9 / 10), keypoint 200 300 (9 / 10)]\<rparr>"

text \<open>The centred frame with the nose moved above the left, then the right shoulder.\<close>

definition noseAtLeftPose :: Pose where
  "noseAtLeftPose = \<lparr>keypoints = (keypoints centredPose)[0 := keypoint 400 100 (9 / 10)]\<rparr>"

definition noseAtRightPose :: Pose where
  "noseAtRightPose = \<lparr>keypoints = (keypoints centredPose)[0 := keypoint 200 100 (9 / 10)]\<rparr>"

text \<open>Ears detected at the height of the shoulders, the nose above them.\<close>

definition levelPose :: Pose where
  "levelPose = \<lparr>keypoints =
     [keypoint 300 100 (9 / 10), keypoint 310 90 (9 / 10), keypoint 290 90 (9 / 10),
      keypoint 330 300 (9 / 10), keypoint 270 300 (9 / 10),
      keypoint 400 300 (9 / 10), keypoint 200 300 (9 / 10)]\<rparr>"

text \<open>A candidate whose keypoint array stops after the two ears.\<close>

definition shortPose :: Pose where
  "shortPose = \<lparr>keypoints =
     [keypoint 300 100 (9 / 10), keypoint 310 90 (9 / 10), keypoint 290 90 (9 / 10),
      keypoint 330 100 (9 / 10), keypoint 270 100 (9 / 10)]\<rparr>"

section \<open>Properties\<close>

subsection \<open>Auxiliary facts\<close>

lemmas keypoint_indices = NOSE_KEYPOINT_def LEFT_EAR_KEYPOINT_def RIGHT_EAR_KEYPOINT_def
  LEFT_SHOULDER_KEYPOINT_def RIGHT_SHOULDER_KEYPOINT_def

lemma runPrediction_pushes:
  "poseDetector app \<Longrightarrow> cameraLoaded app \<Longrightarrow>
   runPrediction app poses =
     (case pushes poses of
        (cs, None) \<Rightarrow> Returned (fold exec cs app)
      | (cs, Some e) \<Rightarrow> Threw e (fold exec cs app))"
  by (simp add: runPrediction_def pushes_def Let_def split: sum.splits option.splits)

lemma allOf_Inr: "allOf (Inr b # cs) = (if b then allOf cs else Inr False)"
  by (cases b) simp_all

lemma confident_Some: "confident (Some k) = Inr (meetsThreshold k)"
  by (simp add: confident_def)

lemma keypointAt_required:
  assumes "7 \<le> length kps"
  shows "keypointAt kps NOSE_KEYPOINT = Some (kps ! 0)"
    and "keypointAt kps LEFT_EAR_KEYPOINT = Some (kps ! 3)"
    and "keypointAt kps RIGHT_EAR_KEYPOINT = Some (kps ! 4)"
    and "keypointAt kps LEFT_SHOULDER_KEYPOINT = Some (kps ! 5)"
    and "keypointAt kps RIGHT_SHOULDER_KEYPOINT = Some (kps ! 6)"
  using assms by (auto simp: keypointAt_def keypoint_indices)

lemma xRaw_Some:
  "xRaw (Some n) (Some l) (Some r) =
     Inr (if meetsThreshold n \<and> meetsThreshold l \<and> meetsThreshold r
          then xRatio n l r else Num (1 / 2))"
  by (simp add: xRaw_def confident_Some allOf_Inr)

lemma yRaw_Some:
  "yRaw (Some ls) (Some rs) (Some le) (Some re) (Some n) =
     Inr (if meetsThreshold ls \<and> meetsThreshold rs \<and> meetsThreshold le \<and>
             meetsThreshold re \<and> meetsThreshold n
          then Some (yClamped ls rs le re n) else None)"
  by (simp add: yRaw_def confident_Some allOf_Inr)

text \<open>The calls of a frame with one candidate that has the seven keypoints.\<close>

lemma pushes_one:
  assumes "7 \<le> length (keypoints pose)"
  shows "pushes [pose] =
    (let kps = keypoints pose;
         n = kps ! 0; le = kps ! 3; re = kps ! 4; ls = kps ! 5; rs = kps ! 6
     in (PushX (if meetsThreshold n \<and> meetsThreshold ls \<and> meetsThreshold rs
                then xRatio n ls rs else Num (1 / 2)) #
         (if meetsThreshold ls \<and> meetsThreshold rs \<and> meetsThreshold le \<and>
             meetsThreshold re \<and> meetsThreshold n
          then [PushY (yClamped ls rs le re n)] else []), None))"
  by (simp add: pushes_def keypointAt_required [OF assms] xRaw_Some yRaw_Some Let_def)

lemma below_threshold:
  "kp_score k = Some (Num s) \<Longrightarrow> s < 3 / 10 \<Longrightarrow> \<not> meetsThreshold k"
  by (simp add: meetsThreshold_def POSE_CONFIDENCE_THRESHOLD_def)

lemma meets_keypoint: "meetsThreshold (keypoint a b s) = (3 / 10 \<le> s)"
  by (simp add: meetsThreshold_def keypoint_def POSE_CONFIDENCE_THRESHOLD_def)

text \<open>Ranges of the clamp and of one smoothing step.\<close>

lemma in01_Num: "in01 (Num t) = (0 \<le> t \<and> t \<le> 1)"
  by (simp add: in01_def)

lemma in01_finite: "in01 v \<Longrightarrow> \<exists>t. v = Num t \<and> 0 \<le> t \<and> t \<le> 1"
  by (cases v) (simp_all add: in01_def)

lemma clamp_Num:
  "Math_max (Num 0) (Math_min (Num 1) (Num t)) = Num (max 0 (min 1 t))"
  by (simp add: Math_max_def Math_min_def max_def min_def)

lemma clamp_range: "z \<noteq> NaN \<Longrightarrow> in01 (Math_max (Num 0) (Math_min (Num 1) z))"
  by (cases z) (simp_all add: Math_max_def Math_min_def in01_def)

lemma clamp_NaN: "Math_max (Num 0) (Math_min (Num 1) NaN) = NaN"
  by (simp add: Math_max_def Math_min_def)

lemma yClamped_range: "yClamped ls rs le re n = NaN \<or> in01 (yClamped ls rs le re n)"
  unfolding yClamped_def Let_def using clamp_range clamp_NaN by metis

lemma yScaled_NaN_iff: "jsdiv (jssub y Y_MIN) (jssub Y_MAX Y_MIN) = NaN \<longleftrightarrow> y = NaN"
  by (cases y) (simp_all add: Y_MIN_def Y_MAX_def jssub_def)

lemma yClamped_finite:
  assumes "kp_y ls = Num ly" "kp_y rs = Num ry" "kp_y le = Num ey" "kp_y re = Num fy"
    "kp_y n = Num ny" "sY = (ly + ry) / 2" "eY = (ey + fy) / 2"
  shows "eY \<noteq> sY \<Longrightarrow> yClamped ls rs le re n =
           Num (max 0 (min 1 (((ny - sY) / (eY - sY) - 6 / 10) / (14 / 10 - 6 / 10))))"
    and "\<not> (ny = sY \<and> eY = sY) \<Longrightarrow> in01 (yClamped ls rs le re n)"
    and "ny = sY \<Longrightarrow> eY = sY \<Longrightarrow> yClamped ls rs le re n = NaN"
proof -
  have y: "yClamped ls rs le re n =
      Math_max (Num 0) (Math_min (Num 1)
        (jsdiv (jssub (jsdiv (Num (ny - sY)) (Num (eY - sY))) Y_MIN) (jssub Y_MAX Y_MIN)))"
    by (simp add: yClamped_def assms jssub_def Let_def)
  show "eY \<noteq> sY \<Longrightarrow> yClamped ls rs le re n =
           Num (max 0 (min 1 (((ny - sY) / (eY - sY) - 6 / 10) / (14 / 10 - 6 / 10))))"
    by (simp add: y Y_MIN_def Y_MAX_def jssub_def clamp_Num)
  show "ny = sY \<Longrightarrow> eY = sY \<Longrightarrow> yClamped ls rs le re n = NaN"
    by (simp add: y Y_MIN_def Y_MAX_def jssub_def clamp_NaN)
  assume "\<not> (ny = sY \<and> eY = sY)"
  then have "jsdiv (Num (ny - sY)) (Num (eY - sY)) \<noteq> NaN"
    by (cases "0 < ny - sY") auto
  then show "in01 (yClamped ls rs le re n)"
    unfolding y by (intro clamp_range) (simp add: yScaled_NaN_iff)
qed

lemma push_in01:
  assumes "in01 s" and "in01 v"
  shows "in01 (jsadd s (jsmul (jssub v s) POSE_LERP_FACTOR))"
proof -
  from assms obtain a b where s: "s = Num a" "0 \<le> a" "a \<le> 1" and v: "v = Num b" "0 \<le> b" "b \<le> 1"
    by (blast dest: in01_finite)
  have "0 \<le> a + (b - a) * (1 / 10)" "a + (b - a) * (1 / 10) \<le> 1"
    using s(2,3) v(2,3) by argo+
  then show ?thesis
    by (simp add: s v jssub_def POSE_LERP_FACTOR_def in01_Num)
qed

lemma fold_exec_x_in01:
  "in01 (xInput app) \<Longrightarrow> \<forall>v \<in> set (xArgs cs). in01 v \<Longrightarrow> in01 (xInput (fold exec cs app))"
proof (induction cs arbitrary: app)
  case Nil
  then show ?case by simp
next
  case (Cons c cs)
  then show ?case
    by (cases c) (simp_all add: pushXInput_def pushYInput_def push_in01)
qed

lemma fold_exec_y_in01:
  "in01 (yInput app) \<Longrightarrow> \<forall>v \<in> set (yArgs cs). in01 v \<Longrightarrow> in01 (yInput (fold exec cs app))"
proof (induction cs arbitrary: app)
  case Nil
  then show ?case by simp
next
  case (Cons c cs)
  then show ?case
    by (cases c) (simp_all add: pushXInput_def pushYInput_def push_in01)
qed

lemma yRaw_range: "yRaw a b c d e = Inr (Some v) \<Longrightarrow> v = NaN \<or> in01 v"
  by (auto simp: yRaw_def split: sum.splits bool.splits option.splits
      intro: yClamped_range [THEN disjE])

lemma pushes_y_range: "v \<in> set (yArgs (fst (pushes poses))) \<Longrightarrow> v = NaN \<or> in01 v"
  by (auto simp: pushes_def Let_def in01_Num split: if_splits sum.splits option.splits
      dest: yRaw_range)

text \<open>Finite values stay finite; a zero divisor does not give one.\<close>

lemma push_finite:
  "finiteNum s \<Longrightarrow> finiteNum v \<Longrightarrow> finiteNum (jsadd s (jsmul (jssub v s) POSE_LERP_FACTOR))"
  by (cases s; cases v) (simp_all add: jssub_def POSE_LERP_FACTOR_def)

lemma not_finite_signedInf: "\<not> finiteNum (signedInf p)"
  by (cases p) simp_all

lemma xRatio_finite:
  assumes "kp_x n = Num a" "kp_x l = Num b" "kp_x r = Num c"
  shows "c \<noteq> b \<Longrightarrow> xRatio n l r = Num ((a - b) / (c - b))"
    and "c = b \<Longrightarrow> \<not> finiteNum (xRatio n l r)"
  by (simp_all add: xRatio_def jssub_def assms not_finite_signedInf)

lemma yClamped_zero_divisor:
  assumes "kp_y ls = Num ly" "kp_y rs = Num ry" "kp_y le = Num ey" "kp_y re = Num fy"
    "kp_y n = Num ny" "(ey + fy) / 2 = (ly + ry) / 2"
  shows "yClamped ls rs le re n = NaN \<or> yClamped ls rs le re n = Num 0
       \<or> yClamped ls rs le re n = Num 1"
proof -
  have "yClamped ls rs le re n =
      Math_max (Num 0) (Math_min (Num 1)
        (jsdiv (jssub (jsdiv (Num (ny - (ly + ry) / 2)) (Num 0)) Y_MIN) (jssub Y_MAX Y_MIN)))"
    using assms(6) by (simp add: yClamped_def assms(1-5) jssub_def Let_def)
  then show ?thesis
    by (cases "0 < ny - (ly + ry) / 2")
       (simp_all add: Y_MIN_def Y_MAX_def jssub_def Math_max_def Math_min_def)
qed

text \<open>The calls made for the sample frames.\<close>

lemma pushes_sample:
  "pushes [centredPose] = ([PushX (Num (1 / 2)), PushY (Num (1 / 2))], None)"
  "pushes [leaningPose] = ([PushX (Num 11), PushY (Num (1 / 2))], None)"
  "pushes [collapsedPose] = ([PushX NaN, PushY NaN], None)"
  "pushes [sidewaysPose] = ([PushX PosInf, PushY (Num (1 / 2))], None)"
proof -
  have len: "7 \<le> length (keypoints centredPose)" "7 \<le> length (keypoints leaningPose)"
    "7 \<le> length (keypoints collapsedPose)" "7 \<le> length (keypoints sidewaysPose)"
    by (simp_all add: centredPose_def leaningPose_def collapsedPose_def sidewaysPose_def)
  show "pushes [centredPose] = ([PushX (Num (1 / 2)), PushY (Num (1 / 2))], None)"
    unfolding pushes_one [OF len(1)] Let_def
    by (simp add: centredPose_def meets_keypoint)
       (simp add: xRatio_def yClamped_def jssub_def keypoint_def Y_MIN_def Y_MAX_def clamp_Num)
  show "pushes [leaningPose] = ([PushX (Num 11), PushY (Num (1 / 2))], None)"
    unfolding pushes_one [OF len(2)] Let_def
    by (simp add: leaningPose_def meets_keypoint)
       (simp add: xRatio_def yClamped_def jssub_def keypoint_def Y_MIN_def Y_MAX_def clamp_Num)
  show "pushes [collapsedPose] = ([PushX NaN, PushY NaN], None)"
    unfolding pushes_one [OF len(3)] Let_def
    by (simp add: collapsedPose_def meets_keypoint numeral_eq_Suc)
       (simp add: xRatio_def yClamped_def jssub_def keypoint_def Y_MIN_def Y_MAX_def clamp_NaN)
  show "pushes [sidewaysPose] = ([PushX PosInf, PushY (Num (1 / 2))], None)"
    unfolding pushes_one [OF len(4)] Let_def
    by (simp add: sidewaysPose_def meets_keypoint)
       (simp add: xRatio_def yClamped_def jssub_def keypoint_def Y_MIN_def Y_MAX_def clamp_Num)
qed

lemma readyApp_ready: "poseDetector readyApp" "cameraLoaded readyApp"
  by (simp_all add: readyApp_def)

subsection \<open>Binary64 rounding\<close>

























































subsection \<open>The smoothing law\<close>

text \<open>
  Claim C7. Every smoother update replaces the signal by
  \<open>signal + (raw - signal) * 0.1\<close>, with the same factor 0.1 on both axes; on finite
  values this is the real number \<open>s + (r - s) * (1 / 10)\<close>. In particular one update
  with raw value 1 from the signal 0.5 gives 0.55.
\<close>

theorem smoother_update_law:
  "pushXInput v app =
     app\<lparr>xInput := jsadd (xInput app) (jsmul (jssub v (xInput app)) (Num (1 / 10)))\<rparr>
   \<and> pushYInput v app =
     app\<lparr>yInput := jsadd (yInput app) (jsmul (jssub v (yInput app)) (Num (1 / 10)))\<rparr>
   \<and> xInput (pushXInput (Num r) (app\<lparr>xInput := Num s\<rparr>)) = Num (s + (r - s) * (1 / 10))
   \<and> yInput (pushYInput (Num r) (app\<lparr>yInput := Num s\<rparr>)) = Num (s + (r - s) * (1 / 10))
   \<and> xInput (pushXInput (Num 1) (app\<lparr>xInput := Num (1 / 2)\<rparr>)) = Num (55 / 100)
   \<and> yInput (pushYInput (Num 1) (app\<lparr>yInput := Num (1 / 2)\<rparr>)) = Num (55 / 100)"
  by (simp add: pushXInput_def pushYInput_def POSE_LERP_FACTOR_def jssub_def)

subsection \<open>Frames without exactly one candidate\<close>

text \<open>
  Claim C6. When the provider returns a number of candidates other than one (none, or
  two and more), the frame makes exactly the calls \<open>pushXInput(0.5)\<close> and
  \<open>pushYInput(0.5)\<close>: both raw estimates are 0.5, whatever the candidates hold and
  whatever the earlier frames were, and the frame returns.
\<close>

theorem other_count_forces_neutral:
  assumes "poseDetector app" and "cameraLoaded app" and "length poses \<noteq> 1"
  shows "pushes poses = ([PushX (Num (1 / 2)), PushY (Num (1 / 2))], None)
       \<and> xArgs (fst (pushes poses)) = [Num (1 / 2)]
       \<and> yArgs (fst (pushes poses)) = [Num (1 / 2)]
       \<and> runPrediction app poses =
           Returned (pushYInput (Num (1 / 2)) (pushXInput (Num (1 / 2)) app))"
  using assms by (simp add: pushes_def runPrediction_def)

theorem other_count_forces_neutral_witness:
  "pushes [] = ([PushX (Num (1 / 2)), PushY (Num (1 / 2))], None)
   \<and> pushes [leaningPose, centredPose] = ([PushX (Num (1 / 2)), PushY (Num (1 / 2))], None)
   \<and> runPrediction readyApp [leaningPose, centredPose] =
       Returned (readyApp\<lparr>xInput := Num (1 / 2), yInput := Num (1 / 2)\<rparr>)"
  using other_count_forces_neutral [of readyApp "[]"]
        other_count_forces_neutral [of readyApp "[leaningPose, centredPose]"]
  by (simp add: readyApp_def pushXInput_def pushYInput_def POSE_LERP_FACTOR_def jssub_def)

subsection \<open>The vertical gate\<close>

text \<open>
  Claim C3. In a frame with exactly one candidate, if one of the five required
  keypoints (nose, left ear, right ear, left shoulder, right shoulder) has a confidence
  that does not reach the threshold 0.3, then no vertical value is pushed and \<open>yInput\<close>
  after the frame is \<open>yInput\<close> before it. (A numeric score below 0.3 does not reach the
  threshold: \<open>below_threshold\<close>.)
\<close>

theorem vertical_gate_failure_pushes_nothing:
  assumes "poseDetector app" and "cameraLoaded app"
    and "7 \<le> length (keypoints pose)"
    and "i \<in> {NOSE_KEYPOINT, LEFT_EAR_KEYPOINT, RIGHT_EAR_KEYPOINT,
               LEFT_SHOULDER_KEYPOINT, RIGHT_SHOULDER_KEYPOINT}"
    and "\<not> meetsThreshold (keypoints pose ! i)"
  shows "yArgs (fst (pushes [pose])) = []
       \<and> (\<exists>app'. runPrediction app [pose] = Returned app' \<and> yInput app' = yInput app)"
proof -
  from assms(4,5) have gate:
    "\<not> (meetsThreshold (keypoints pose ! 5) \<and> meetsThreshold (keypoints pose ! 6) \<and>
        meetsThreshold (keypoints pose ! 3) \<and> meetsThreshold (keypoints pose ! 4) \<and>
        meetsThreshold (keypoints pose ! 0))"
    by (auto simp: keypoint_indices)
  have p: "pushes [pose] =
      ([PushX (if meetsThreshold (keypoints pose ! 0) \<and> meetsThreshold (keypoints pose ! 5) \<and>
                  meetsThreshold (keypoints pose ! 6)
               then xRatio (keypoints pose ! 0) (keypoints pose ! 5) (keypoints pose ! 6)
               else Num (1 / 2))], None)"
    using gate by (simp add: pushes_one [OF assms(3)] Let_def)
  show ?thesis
    by (simp add: runPrediction_pushes [OF assms(1,2)] p pushXInput_def)
qed

theorem vertical_gate_failure_pushes_nothing_witness:
  "yArgs (fst (pushes [lowEarPose])) = []
   \<and> (\<exists>app'. runPrediction readyApp [lowEarPose] = Returned app' \<and> yInput app' = Num (1 / 2))"
  using vertical_gate_failure_pushes_nothing [of readyApp lowEarPose LEFT_EAR_KEYPOINT]
  by (simp add: readyApp_def lowEarPose_def keypoint_indices meets_keypoint)

subsection \<open>The horizontal estimate\<close>

text \<open>
  Claim C4. In a frame with exactly one candidate: when the confidences of nose, left
  shoulder and right shoulder each reach 0.3, the value pushed for the horizontal axis is
  \<open>(nose.x - leftShoulder.x) / (rightShoulder.x - leftShoulder.x)\<close>, with no clamp; for
  finite coordinates with distinct shoulder abscissas it is that real quotient, which is
  0 when the nose is at the left shoulder's abscissa and 1 when at the right one's.
  When one of the three confidences does not reach 0.3, the value pushed is 0.5.
\<close>

theorem horizontal_estimate:
  assumes "7 \<le> length (keypoints pose)"
    and "nose = keypoints pose ! NOSE_KEYPOINT"
    and "leftShoulder = keypoints pose ! LEFT_SHOULDER_KEYPOINT"
    and "rightShoulder = keypoints pose ! RIGHT_SHOULDER_KEYPOINT"
  shows "(meetsThreshold nose \<and> meetsThreshold leftShoulder \<and> meetsThreshold rightShoulder \<longrightarrow>
            xArgs (fst (pushes [pose])) =
              [jsdiv (jssub (kp_x nose) (kp_x leftShoulder))
                     (jssub (kp_x rightShoulder) (kp_x leftShoulder))])
       \<and> (meetsThreshold nose \<and> meetsThreshold leftShoulder \<and> meetsThreshold rightShoulder
              \<and> kp_x nose = Num a \<and> kp_x leftShoulder = Num b \<and> kp_x rightShoulder = Num c
              \<and> b \<noteq> c \<longrightarrow>
            xArgs (fst (pushes [pose])) = [Num ((a - b) / (c - b))]
            \<and> (a = b \<longrightarrow> xArgs (fst (pushes [pose])) = [Num 0])
            \<and> (a = c \<longrightarrow> xArgs (fst (pushes [pose])) = [Num 1]))
       \<and> (\<not> meetsThreshold nose \<or> \<not> meetsThreshold leftShoulder \<or>
            \<not> meetsThreshold rightShoulder \<longrightarrow>
            xArgs (fst (pushes [pose])) = [Num (1 / 2)])"
proof -
  have x: "xArgs (fst (pushes [pose])) =
      [if meetsThreshold nose \<and> meetsThreshold leftShoulder \<and> meetsThreshold rightShoulder
       then xRatio nose leftShoulder rightShoulder else Num (1 / 2)]"
    by (simp add: pushes_one [OF assms(1)] assms(2-4) keypoint_indices Let_def)
  show ?thesis
    by (auto simp: x xRatio_def jssub_def)
qed

theorem horizontal_estimate_witness:
  "xArgs (fst (pushes [leaningPose])) = [Num 11]
   \<and> xArgs (fst (pushes [noseAtLeftPose])) = [Num 0]
   \<and> xArgs (fst (pushes [noseAtRightPose])) = [Num 1]
   \<and> xArgs (fst (pushes [hiddenShoulderPose])) = [Num (1 / 2)]"
proof -
  have len: "7 \<le> length (keypoints leaningPose)" "7 \<le> length (keypoints hiddenShoulderPose)"
    "7 \<le> length (keypoints noseAtLeftPose)" "7 \<le> length (keypoints noseAtRightPose)"
    by (simp_all add: leaningPose_def hiddenShoulderPose_def noseAtLeftPose_def
        noseAtRightPose_def centredPose_def)
  have "xArgs (fst (pushes [leaningPose])) = [Num ((11 - 0) / (1 - 0))]"
    using horizontal_estimate [OF len(1) refl refl refl, of 11 0 1]
    by (simp add: leaningPose_def keypoint_indices meets_keypoint)
       (simp add: keypoint_def jssub_def)
  moreover have "xArgs (fst (pushes [hiddenShoulderPose])) = [Num (1 / 2)]"
    using horizontal_estimate [OF len(2) refl refl refl]
    by (simp add: hiddenShoulderPose_def keypoint_indices meets_keypoint)
  moreover have "xArgs (fst (pushes [noseAtLeftPose])) = [Num 0]"
    using horizontal_estimate [OF len(3) refl refl refl, of 400 400 200]
    by (simp add: noseAtLeftPose_def centredPose_def keypoint_indices meets_keypoint)
       (simp add: keypoint_def jssub_def)
  moreover have "xArgs (fst (pushes [noseAtRightPose])) = [Num 1]"
    using horizontal_estimate [OF len(4) refl refl refl, of 200 400 200]
    by (simp add: noseAtRightPose_def centredPose_def keypoint_indices meets_keypoint)
       (simp add: keypoint_def jssub_def)
  ultimately show ?thesis by simp
qed

subsection \<open>Smoother updates per frame\<close>

text \<open>
  Claim C2, as stated: in every processed frame each of \<open>xInput\<close> and \<open>yInput\<close> is
  updated exactly once. It fails for \<open>yInput\<close>: with one candidate whose left ear is
  seen at confidence 0.1 the frame returns and makes no \<open>pushYInput\<close> call.
\<close>

theorem vertical_update_skipped_counterexample:
  "runPrediction readyApp [lowEarPose] = Returned readyApp
   \<and> length (yArgs (fst (pushes [lowEarPose]))) \<noteq> 1"
proof -
  have len: "7 \<le> length (keypoints lowEarPose)"
    by (simp add: lowEarPose_def)
  have p: "pushes [lowEarPose] = ([PushX (Num (1 / 2))], None)"
    unfolding pushes_one [OF len] Let_def
    by (simp add: lowEarPose_def meets_keypoint)
       (simp add: xRatio_def jssub_def keypoint_def)
  have r: "poseDetector readyApp" "cameraLoaded readyApp"
    by (simp_all add: readyApp_def)
  show ?thesis
    by (simp add: runPrediction_pushes [OF r] p)
       (simp add: pushXInput_def readyApp_def jssub_def POSE_LERP_FACTOR_def)
qed

text \<open>
  Claim C2, amended. In every processed frame \<open>xInput\<close> is updated exactly once.
  \<open>yInput\<close> is updated exactly once, except in a frame with exactly one candidate in
  which one of the five required confidences does not reach 0.3: there it is not
  updated. So for every number of candidates other than one both are updated exactly
  once.
\<close>

theorem updates_per_frame:
  assumes "poseDetector app" and "cameraLoaded app"
    and "length poses = 1 \<longrightarrow> 7 \<le> length (keypoints (poses ! 0))"
  shows "(\<exists>app'. runPrediction app poses = Returned app')
       \<and> length (xArgs (fst (pushes poses))) = 1
       \<and> length (yArgs (fst (pushes poses))) =
           (if length poses = 1 \<and>
               \<not> (\<forall>i \<in> {NOSE_KEYPOINT, LEFT_EAR_KEYPOINT, RIGHT_EAR_KEYPOINT,
                          LEFT_SHOULDER_KEYPOINT, RIGHT_SHOULDER_KEYPOINT}.
                     meetsThreshold (keypoints (poses ! 0) ! i))
            then 0 else 1)"
proof (cases "length poses = 1")
  case True
  then obtain pose where poses: "poses = [pose]"
    by (cases poses) simp_all
  with assms(3) have len: "7 \<le> length (keypoints pose)"
    by simp
  show ?thesis
    by (simp add: runPrediction_pushes [OF assms(1,2)] poses pushes_one [OF len]
        Let_def keypoint_indices)
next
  case False
  then show ?thesis
    by (simp add: runPrediction_pushes [OF assms(1,2)] pushes_def)
qed

theorem updates_per_frame_witness:
  "length (xArgs (fst (pushes [lowEarPose]))) = 1
   \<and> length (yArgs (fst (pushes [lowEarPose]))) = 0
   \<and> length (xArgs (fst (pushes [centredPose]))) = 1
   \<and> length (yArgs (fst (pushes [centredPose]))) = 1
   \<and> length (yArgs (fst (pushes [centredPose, lowEarPose]))) = 1"
proof -
  have r: "poseDetector readyApp" "cameraLoaded readyApp"
    by (simp_all add: readyApp_def)
  have "length (xArgs (fst (pushes [lowEarPose]))) = 1
      \<and> length (yArgs (fst (pushes [lowEarPose]))) = 0"
    using updates_per_frame [OF r, of "[lowEarPose]"]
    by (simp add: lowEarPose_def keypoint_indices meets_keypoint)
  moreover have "length (xArgs (fst (pushes [centredPose]))) = 1
      \<and> length (yArgs (fst (pushes [centredPose]))) = 1"
    using updates_per_frame [OF r, of "[centredPose]"]
    by (simp add: centredPose_def keypoint_indices meets_keypoint)
  moreover have "length (yArgs (fst (pushes [centredPose, lowEarPose]))) = 1"
    using updates_per_frame [OF r, of "[centredPose, lowEarPose]"]
    by simp
  ultimately show ?thesis by simp
qed

subsection \<open>Keypoint reads\<close>

text \<open>
  Claim C10. With exactly one candidate the extractor reads the keypoint array at the
  fixed indices 0, 3, 4, 5 and 6 without a bounds check. All five reads find an element
  exactly when the array has at least 7 elements. With at least 7 elements the frame
  returns; with fewer than 6 the left shoulder is \<open>undefined\<close> and the frame ends in
  a \<open>TypeError\<close>.
\<close>

theorem keypoint_reads_in_bounds:
  "((\<forall>i \<in> {NOSE_KEYPOINT, LEFT_EAR_KEYPOINT, RIGHT_EAR_KEYPOINT,
              LEFT_SHOULDER_KEYPOINT, RIGHT_SHOULDER_KEYPOINT}.
        keypointAt (keypoints pose) i \<noteq> None) \<longleftrightarrow> 7 \<le> length (keypoints pose))
   \<and> (poseDetector app \<and> cameraLoaded app \<and> 7 \<le> length (keypoints pose) \<longrightarrow>
        (\<exists>app'. runPrediction app [pose] = Returned app'))
   \<and> (poseDetector app \<and> cameraLoaded app \<and> length (keypoints pose) < 6 \<longrightarrow>
        (\<exists>app'. runPrediction app [pose] = Threw TypeError app'))"
proof (intro conjI impI)
  show "(\<forall>i \<in> {NOSE_KEYPOINT, LEFT_EAR_KEYPOINT, RIGHT_EAR_KEYPOINT,
              LEFT_SHOULDER_KEYPOINT, RIGHT_SHOULDER_KEYPOINT}.
        keypointAt (keypoints pose) i \<noteq> None) \<longleftrightarrow> 7 \<le> length (keypoints pose)"
    by (auto simp: keypointAt_def keypoint_indices)
next
  assume "poseDetector app \<and> cameraLoaded app \<and> 7 \<le> length (keypoints pose)"
  then have len: "7 \<le> length (keypoints pose)"
    and pd: "poseDetector app" and cl: "cameraLoaded app"
    by simp_all
  show "\<exists>app'. runPrediction app [pose] = Returned app'"
    by (simp add: runPrediction_pushes [OF pd cl] pushes_one [OF len] Let_def)
next
  assume a: "poseDetector app \<and> cameraLoaded app \<and> length (keypoints pose) < 6"
  then have ls: "keypointAt (keypoints pose) LEFT_SHOULDER_KEYPOINT = None"
    by (simp add: keypointAt_def keypoint_indices)
  have x: "xRaw n None r = Inl TypeError \<or> xRaw n None r = Inr (Num (1 / 2))" for n r
    by (cases n) (simp_all add: xRaw_def confident_def allOf_Inr)
  have y: "yRaw None r le re n = Inl TypeError" for r le re n
    by (simp add: yRaw_def confident_def)
  from x [of "keypointAt (keypoints pose) NOSE_KEYPOINT"
             "keypointAt (keypoints pose) RIGHT_SHOULDER_KEYPOINT"]
  show "\<exists>app'. runPrediction app [pose] = Threw TypeError app'"
    using a by (auto simp: runPrediction_def ls y Let_def)
qed

theorem keypoint_reads_in_bounds_witness:
  "7 \<le> length (keypoints centredPose)
   \<and> keypointAt (keypoints centredPose) NOSE_KEYPOINT \<noteq> None
   \<and> keypointAt (keypoints centredPose) LEFT_EAR_KEYPOINT \<noteq> None
   \<and> keypointAt (keypoints centredPose) RIGHT_EAR_KEYPOINT \<noteq> None
   \<and> keypointAt (keypoints centredPose) LEFT_SHOULDER_KEYPOINT \<noteq> None
   \<and> keypointAt (keypoints centredPose) RIGHT_SHOULDER_KEYPOINT \<noteq> None
   \<and> (\<exists>app'. runPrediction readyApp [centredPose] = Returned app')
   \<and> length (keypoints shortPose) < 6
   \<and> (\<exists>app'. runPrediction readyApp [shortPose] = Threw TypeError app')"
proof -
  have r: "poseDetector readyApp \<and> cameraLoaded readyApp"
    by (simp add: readyApp_def)
  have c: "length (keypoints centredPose) = 7" and s: "length (keypoints shortPose) = 5"
    by (simp_all add: centredPose_def shortPose_def)
  show ?thesis
    using keypoint_reads_in_bounds [of centredPose readyApp]
          keypoint_reads_in_bounds [of shortPose readyApp]
    unfolding c s using r by simp
qed

subsection \<open>The vertical estimate\<close>

text \<open>
  Claim C5, as stated: whenever the five confidences reach 0.3 the vertical raw value is
  the clamped \<open>yScaled\<close> and so lies between 0 and 1. The second half fails when ears,
  shoulders and nose are all detected at the same height: \<open>y\<close> is \<open>0 / 0\<close>, that is
  \<open>NaN\<close>, \<open>Math.min\<close> and \<open>Math.max\<close> return \<open>NaN\<close>, and \<open>NaN\<close> is pushed.
\<close>

theorem vertical_estimate_nan_counterexample:
  "meetsThreshold (keypoints collapsedPose ! NOSE_KEYPOINT)
   \<and> meetsThreshold (keypoints collapsedPose ! LEFT_EAR_KEYPOINT)
   \<and> meetsThreshold (keypoints collapsedPose ! RIGHT_EAR_KEYPOINT)
   \<and> meetsThreshold (keypoints collapsedPose ! LEFT_SHOULDER_KEYPOINT)
   \<and> meetsThreshold (keypoints collapsedPose ! RIGHT_SHOULDER_KEYPOINT)
   \<and> yArgs (fst (pushes [collapsedPose])) = [NaN]
   \<and> \<not> in01 NaN"
  by (simp add: pushes_sample in01_def)
     (simp add: collapsedPose_def keypoint_indices meets_keypoint numeral_eq_Suc)

text \<open>
  Claim C5, amended. In a frame with exactly one candidate whose five confidences
  reach 0.3 and whose five ordinates are finite, with \<open>shoulderY\<close> and \<open>earY\<close> the means
  of the two shoulder and of the two ear ordinates: if \<open>earY \<noteq> shoulderY\<close> the value
  pushed for the vertical axis is \<open>clamp((y - 0.6) / (1.4 - 0.6), 0, 1)\<close> with
  \<open>y = (nose.y - shoulderY) / (earY - shoulderY)\<close>; and the value pushed lies between 0
  and 1 unless \<open>nose.y = shoulderY = earY\<close>.
\<close>

theorem vertical_estimate:
  assumes "7 \<le> length (keypoints pose)"
    and "nose = keypoints pose ! NOSE_KEYPOINT"
    and "leftEar = keypoints pose ! LEFT_EAR_KEYPOINT"
    and "rightEar = keypoints pose ! RIGHT_EAR_KEYPOINT"
    and "leftShoulder = keypoints pose ! LEFT_SHOULDER_KEYPOINT"
    and "rightShoulder = keypoints pose ! RIGHT_SHOULDER_KEYPOINT"
    and "meetsThreshold nose" and "meetsThreshold leftEar" and "meetsThreshold rightEar"
    and "meetsThreshold leftShoulder" and "meetsThreshold rightShoulder"
    and "kp_y leftShoulder = Num ly" and "kp_y rightShoulder = Num ry"
    and "kp_y leftEar = Num ey" and "kp_y rightEar = Num fy" and "kp_y nose = Num ny"
    and "shoulderY = (ly + ry) / 2" and "earY = (ey + fy) / 2"
  shows "(earY \<noteq> shoulderY \<longrightarrow>
            yArgs (fst (pushes [pose])) =
              [Num (max 0 (min 1 (((ny - shoulderY) / (earY - shoulderY) - 6 / 10)
                                   / (14 / 10 - 6 / 10))))])
       \<and> (\<not> (ny = shoulderY \<and> earY = shoulderY) \<longrightarrow>
            (\<exists>v. yArgs (fst (pushes [pose])) = [v] \<and> in01 v))"
proof -
  have y: "yArgs (fst (pushes [pose])) =
      [yClamped leftShoulder rightShoulder leftEar rightEar nose]"
    using assms(7-11)
    by (simp add: pushes_one [OF assms(1)] assms(2-6) keypoint_indices Let_def)
  note fin = yClamped_finite [OF assms(12-18)]
  show ?thesis
    unfolding y using fin(1,2) by simp
qed

theorem vertical_estimate_witness:
  "yArgs (fst (pushes [centredPose])) = [Num (1 / 2)] \<and> in01 (Num (1 / 2))
   \<and> (\<exists>v. yArgs (fst (pushes [levelPose])) = [v] \<and> in01 v)"
proof -
  have len: "7 \<le> length (keypoints centredPose)" "7 \<le> length (keypoints levelPose)"
    by (simp_all add: centredPose_def levelPose_def)
  have "(100 + 100) / 2 \<noteq> ((300 + 300) / 2 :: real) \<longrightarrow>
      yArgs (fst (pushes [centredPose])) =
        [Num (max 0 (min 1 (((100 - (300 + 300) / 2) / ((100 + 100) / 2 - (300 + 300) / 2)
                              - 6 / 10) / (14 / 10 - 6 / 10))))]"
    using vertical_estimate [OF len(1) refl refl refl refl refl _ _ _ _ _ _ _ _ _ _ refl refl,
        of 300 300 100 100 100]
    by (simp add: centredPose_def keypoint_indices meets_keypoint) (simp add: keypoint_def)
  moreover have "\<exists>v. yArgs (fst (pushes [levelPose])) = [v] \<and> in01 v"
    using vertical_estimate [OF len(2) refl refl refl refl refl _ _ _ _ _ _ _ _ _ _ refl refl,
        of 300 300 300 300 100]
    by (simp add: levelPose_def keypoint_indices meets_keypoint) (simp add: keypoint_def)
  ultimately show ?thesis
    by (simp add: in01_Num)
qed

subsection \<open>Ranges of raw estimates and signals\<close>

text \<open>
  Claim C1, as stated: after every processed frame both raw estimates and both smoothed
  signals lie between 0 and 1. It fails on the horizontal axis, where nothing clamps:
  with shoulders at x = 0 and x = 1 and the nose at x = 11 the raw value is 11, and one
  frame moves \<open>xInput\<close> from 0.5 to 1.55.
\<close>

theorem unclamped_horizontal_counterexample:
  "runPrediction readyApp [leaningPose] = Returned (readyApp\<lparr>xInput := Num (31 / 20)\<rparr>)
   \<and> xArgs (fst (pushes [leaningPose])) = [Num 11]
   \<and> \<not> in01 (Num 11)
   \<and> \<not> in01 (xInput (readyApp\<lparr>xInput := Num (31 / 20)\<rparr>))"
  by (simp add: runPrediction_pushes [OF readyApp_ready] pushes_sample in01_Num)
     (simp add: readyApp_def pushXInput_def pushYInput_def jssub_def POSE_LERP_FACTOR_def)

text \<open>
  Claim C1, amended. After a processed frame: every vertical raw value pushed lies
  between 0 and 1 or is \<open>NaN\<close> (the degenerate geometry of claim C5); the horizontal raw
  value is not clamped; and each smoothed signal lies between 0 and 1 provided it did
  before the frame and every raw value pushed onto it in the frame lies between 0 and 1.
\<close>

theorem signals_bounded_by_raws:
  assumes "poseDetector app" and "cameraLoaded app"
    and "runPrediction app poses = Returned app'"
  shows "(\<forall>v \<in> set (yArgs (fst (pushes poses))). v = NaN \<or> in01 v)
       \<and> (in01 (xInput app) \<and> (\<forall>v \<in> set (xArgs (fst (pushes poses))). in01 v) \<longrightarrow>
            in01 (xInput app'))
       \<and> (in01 (yInput app) \<and> (\<forall>v \<in> set (yArgs (fst (pushes poses))). in01 v) \<longrightarrow>
            in01 (yInput app'))"
proof -
  obtain cs e where p: "pushes poses = (cs, e)"
    by (cases "pushes poses")
  from assms(3) have app': "app' = fold exec cs app"
    by (simp add: runPrediction_pushes [OF assms(1,2)] p split: option.splits)
  show ?thesis
    using pushes_y_range [of _ poses]
    by (auto simp: p app' intro: fold_exec_x_in01 fold_exec_y_in01)
qed

theorem signals_bounded_by_raws_witness:
  "runPrediction readyApp [centredPose] = Returned readyApp
   \<and> in01 (xInput readyApp) \<and> in01 (yInput readyApp)
   \<and> xArgs (fst (pushes [centredPose])) = [Num (1 / 2)]
   \<and> yArgs (fst (pushes [centredPose])) = [Num (1 / 2)]"
proof -
  have run: "runPrediction readyApp [centredPose] = Returned readyApp"
    by (simp add: runPrediction_pushes [OF readyApp_ready] pushes_sample)
       (simp add: readyApp_def pushXInput_def pushYInput_def jssub_def POSE_LERP_FACTOR_def)
  show ?thesis
    using signals_bounded_by_raws [OF readyApp_ready run] run
    by (simp add: pushes_sample in01_Num) (simp add: readyApp_def in01_Num)
qed

subsection \<open>Repeated updates with the raw value 1\<close>




subsection \<open>Unguarded divisions\<close>

text \<open>
  Claim C9. Neither division of the extractor checks its divisor. There is a
  one-candidate frame that passes the horizontal gate with
  \<open>rightShoulder.x - leftShoulder.x = 0\<close>, and it pushes an infinity into \<open>xInput\<close>;
  there is one that passes the vertical gate with \<open>earY - shoulderY = 0\<close>, and it pushes
  \<open>NaN\<close> into \<open>yInput\<close>. When the coordinates and both signals are finite,
  \<open>rightShoulder.x \<noteq> leftShoulder.x\<close> and \<open>earY \<noteq> shoulderY\<close>, every raw value of the
  frame and both signals after it are finite. When the horizontal gate passes with
  finite abscissas and \<open>rightShoulder.x = leftShoulder.x\<close>, the horizontal raw value is
  not finite. When the vertical gate passes with finite ordinates and
  \<open>earY = shoulderY\<close>, the vertical raw value is \<open>NaN\<close> or the clamp of an infinity,
  0 or 1.
\<close>

theorem unguarded_divisions:
  "(\<exists>pose app'. 7 \<le> length (keypoints pose)
        \<and> meetsThreshold (keypoints pose ! NOSE_KEYPOINT)
        \<and> meetsThreshold (keypoints pose ! LEFT_SHOULDER_KEYPOINT)
        \<and> meetsThreshold (keypoints pose ! RIGHT_SHOULDER_KEYPOINT)
        \<and> jssub (kp_x (keypoints pose ! RIGHT_SHOULDER_KEYPOINT))
                 (kp_x (keypoints pose ! LEFT_SHOULDER_KEYPOINT)) = Num 0
        \<and> xArgs (fst (pushes [pose])) = [PosInf]
        \<and> runPrediction readyApp [pose] = Returned app' \<and> xInput app' = PosInf)
   \<and> (\<exists>pose app'. 7 \<le> length (keypoints pose)
        \<and> meetsThreshold (keypoints pose ! NOSE_KEYPOINT)
        \<and> meetsThreshold (keypoints pose ! LEFT_EAR_KEYPOINT)
        \<and> meetsThreshold (keypoints pose ! RIGHT_EAR_KEYPOINT)
        \<and> meetsThreshold (keypoints pose ! LEFT_SHOULDER_KEYPOINT)
        \<and> meetsThreshold (keypoints pose ! RIGHT_SHOULDER_KEYPOINT)
        \<and> jssub (jsdiv (jsadd (kp_y (keypoints pose ! LEFT_EAR_KEYPOINT))
                               (kp_y (keypoints pose ! RIGHT_EAR_KEYPOINT))) (Num 2))
                 (jsdiv (jsadd (kp_y (keypoints pose ! LEFT_SHOULDER_KEYPOINT))
                               (kp_y (keypoints pose ! RIGHT_SHOULDER_KEYPOINT))) (Num 2)) = Num 0
        \<and> yArgs (fst (pushes [pose])) = [NaN]
        \<and> runPrediction readyApp [pose] = Returned app' \<and> yInput app' = NaN)
   \<and> (poseDetector app \<and> cameraLoaded app \<and> 7 \<le> length (keypoints pose)
        \<and> xInput app = Num sx \<and> yInput app = Num sy
        \<and> kp_x (keypoints pose ! NOSE_KEYPOINT) = Num a
        \<and> kp_x (keypoints pose ! LEFT_SHOULDER_KEYPOINT) = Num b
        \<and> kp_x (keypoints pose ! RIGHT_SHOULDER_KEYPOINT) = Num c
        \<and> kp_y (keypoints pose ! LEFT_SHOULDER_KEYPOINT) = Num ly
        \<and> kp_y (keypoints pose ! RIGHT_SHOULDER_KEYPOINT) = Num ry
        \<and> kp_y (keypoints pose ! LEFT_EAR_KEYPOINT) = Num ey
        \<and> kp_y (keypoints pose ! RIGHT_EAR_KEYPOINT) = Num fy
        \<and> kp_y (keypoints pose ! NOSE_KEYPOINT) = Num ny
        \<and> c \<noteq> b \<and> (ey + fy) / 2 \<noteq> (ly + ry) / 2 \<longrightarrow>
        (\<forall>v \<in> set (xArgs (fst (pushes [pose]))) \<union> set (yArgs (fst (pushes [pose]))).
            finiteNum v)
        \<and> (\<exists>app'. runPrediction app [pose] = Returned app'
              \<and> finiteNum (xInput app') \<and> finiteNum (yInput app')))
   \<and> (7 \<le> length (keypoints pose)
        \<and> meetsThreshold (keypoints pose ! NOSE_KEYPOINT)
        \<and> meetsThreshold (keypoints pose ! LEFT_SHOULDER_KEYPOINT)
        \<and> meetsThreshold (keypoints pose ! RIGHT_SHOULDER_KEYPOINT)
        \<and> kp_x (keypoints pose ! NOSE_KEYPOINT) = Num a
        \<and> kp_x (keypoints pose ! LEFT_SHOULDER_KEYPOINT) = Num b
        \<and> kp_x (keypoints pose ! RIGHT_SHOULDER_KEYPOINT) = Num c
        \<and> c = b \<longrightarrow>
        (\<exists>v. xArgs (fst (pushes [pose])) = [v] \<and> \<not> finiteNum v))
   \<and> (7 \<le> length (keypoints pose)
        \<and> meetsThreshold (keypoints pose ! NOSE_KEYPOINT)
        \<and> meetsThreshold (keypoints pose ! LEFT_EAR_KEYPOINT)
        \<and> meetsThreshold (keypoints pose ! RIGHT_EAR_KEYPOINT)
        \<and> meetsThreshold (keypoints pose ! LEFT_SHOULDER_KEYPOINT)
        \<and> meetsThreshold (keypoints pose ! RIGHT_SHOULDER_KEYPOINT)
        \<and> kp_y (keypoints pose ! LEFT_SHOULDER_KEYPOINT) = Num ly
        \<and> kp_y (keypoints pose ! RIGHT_SHOULDER_KEYPOINT) = Num ry
        \<and> kp_y (keypoints pose ! LEFT_EAR_KEYPOINT) = Num ey
        \<and> kp_y (keypoints pose ! RIGHT_EAR_KEYPOINT) = Num fy
        \<and> kp_y (keypoints pose ! NOSE_KEYPOINT) = Num ny
        \<and> (ey + fy) / 2 = (ly + ry) / 2 \<longrightarrow>
        (\<exists>v. yArgs (fst (pushes [pose])) = [v] \<and> (v = NaN \<or> v = Num 0 \<or> v = Num 1)))"
proof -
  have len1: "7 \<le> length (keypoints sidewaysPose)"
    by (simp add: sidewaysPose_def)
  have run1: "runPrediction readyApp [sidewaysPose] = Returned (readyApp\<lparr>xInput := PosInf\<rparr>)"
    by (simp add: runPrediction_pushes [OF readyApp_ready] pushes_sample)
       (simp add: readyApp_def pushXInput_def pushYInput_def jssub_def POSE_LERP_FACTOR_def)
  have gates1: "meetsThreshold (keypoints sidewaysPose ! NOSE_KEYPOINT)"
    "meetsThreshold (keypoints sidewaysPose ! LEFT_SHOULDER_KEYPOINT)"
    "meetsThreshold (keypoints sidewaysPose ! RIGHT_SHOULDER_KEYPOINT)"
    by (simp_all add: sidewaysPose_def keypoint_indices meets_keypoint)
  have div1: "jssub (kp_x (keypoints sidewaysPose ! RIGHT_SHOULDER_KEYPOINT))
                 (kp_x (keypoints sidewaysPose ! LEFT_SHOULDER_KEYPOINT)) = Num 0"
    by (simp add: sidewaysPose_def keypoint_indices keypoint_def jssub_def)
  have horizontal: "\<exists>pose app'. 7 \<le> length (keypoints pose)
        \<and> meetsThreshold (keypoints pose ! NOSE_KEYPOINT)
        \<and> meetsThreshold (keypoints pose ! LEFT_SHOULDER_KEYPOINT)
        \<and> meetsThreshold (keypoints pose ! RIGHT_SHOULDER_KEYPOINT)
        \<and> jssub (kp_x (keypoints pose ! RIGHT_SHOULDER_KEYPOINT))
                 (kp_x (keypoints pose ! LEFT_SHOULDER_KEYPOINT)) = Num 0
        \<and> xArgs (fst (pushes [pose])) = [PosInf]
        \<and> runPrediction readyApp [pose] = Returned app' \<and> xInput app' = PosInf"
    using len1 run1 gates1 div1
    by (intro exI [of _ sidewaysPose] exI [of _ "readyApp\<lparr>xInput := PosInf\<rparr>"])
       (simp add: pushes_sample)
  have len2: "7 \<le> length (keypoints collapsedPose)"
    by (simp add: collapsedPose_def)
  have run2: "runPrediction readyApp [collapsedPose] =
      Returned (readyApp\<lparr>xInput := NaN, yInput := NaN\<rparr>)"
    by (simp add: runPrediction_pushes [OF readyApp_ready] pushes_sample)
       (simp add: readyApp_def pushXInput_def pushYInput_def jssub_def POSE_LERP_FACTOR_def)
  have k: "keypoints collapsedPose ! i = keypoint 0 0 1" if "i < 7" for i
    using that by (simp add: collapsedPose_def)
  have gates2: "meetsThreshold (keypoints collapsedPose ! NOSE_KEYPOINT)"
    "meetsThreshold (keypoints collapsedPose ! LEFT_EAR_KEYPOINT)"
    "meetsThreshold (keypoints collapsedPose ! RIGHT_EAR_KEYPOINT)"
    "meetsThreshold (keypoints collapsedPose ! LEFT_SHOULDER_KEYPOINT)"
    "meetsThreshold (keypoints collapsedPose ! RIGHT_SHOULDER_KEYPOINT)"
    by (simp_all add: k keypoint_indices meets_keypoint)
  have div2: "jssub (jsdiv (jsadd (kp_y (keypoints collapsedPose ! LEFT_EAR_KEYPOINT))
                               (kp_y (keypoints collapsedPose ! RIGHT_EAR_KEYPOINT))) (Num 2))
                 (jsdiv (jsadd (kp_y (keypoints collapsedPose ! LEFT_SHOULDER_KEYPOINT))
                               (kp_y (keypoints collapsedPose ! RIGHT_SHOULDER_KEYPOINT))) (Num 2))
             = Num 0"
    by (simp add: k keypoint_indices keypoint_def jssub_def)
  have vertical: "\<exists>pose app'. 7 \<le> length (keypoints pose)
        \<and> meetsThreshold (keypoints pose ! NOSE_KEYPOINT)
        \<and> meetsThreshold (keypoints pose ! LEFT_EAR_KEYPOINT)
        \<and> meetsThreshold (keypoints pose ! RIGHT_EAR_KEYPOINT)
        \<and> meetsThreshold (keypoints pose ! LEFT_SHOULDER_KEYPOINT)
        \<and> meetsThreshold (keypoints pose ! RIGHT_SHOULDER_KEYPOINT)
        \<and> jssub (jsdiv (jsadd (kp_y (keypoints pose ! LEFT_EAR_KEYPOINT))
                               (kp_y (keypoints pose ! RIGHT_EAR_KEYPOINT))) (Num 2))
                 (jsdiv (jsadd (kp_y (keypoints pose ! LEFT_SHOULDER_KEYPOINT))
                               (kp_y (keypoints pose ! RIGHT_SHOULDER_KEYPOINT))) (Num 2)) = Num 0
        \<and> yArgs (fst (pushes [pose])) = [NaN]
        \<and> runPrediction readyApp [pose] = Returned app' \<and> yInput app' = NaN"
    using len2 run2 gates2 div2
    by (intro exI [of _ collapsedPose] exI [of _ "readyApp\<lparr>xInput := NaN, yInput := NaN\<rparr>"])
       (simp add: pushes_sample)
  have sufficient: "poseDetector app \<and> cameraLoaded app \<and> 7 \<le> length (keypoints pose)
        \<and> xInput app = Num sx \<and> yInput app = Num sy
        \<and> kp_x (keypoints pose ! NOSE_KEYPOINT) = Num a
        \<and> kp_x (keypoints pose ! LEFT_SHOULDER_KEYPOINT) = Num b
        \<and> kp_x (keypoints pose ! RIGHT_SHOULDER_KEYPOINT) = Num c
        \<and> kp_y (keypoints pose ! LEFT_SHOULDER_KEYPOINT) = Num ly
        \<and> kp_y (keypoints pose ! RIGHT_SHOULDER_KEYPOINT) = Num ry
        \<and> kp_y (keypoints pose ! LEFT_EAR_KEYPOINT) = Num ey
        \<and> kp_y (keypoints pose ! RIGHT_EAR_KEYPOINT) = Num fy
        \<and> kp_y (keypoints pose ! NOSE_KEYPOINT) = Num ny
        \<and> c \<noteq> b \<and> (ey + fy) / 2 \<noteq> (ly + ry) / 2 \<longrightarrow>
        (\<forall>v \<in> set (xArgs (fst (pushes [pose]))) \<union> set (yArgs (fst (pushes [pose]))).
            finiteNum v)
        \<and> (\<exists>app'. runPrediction app [pose] = Returned app'
              \<and> finiteNum (xInput app') \<and> finiteNum (yInput app'))"
  proof
    assume h: "poseDetector app \<and> cameraLoaded app \<and> 7 \<le> length (keypoints pose)
        \<and> xInput app = Num sx \<and> yInput app = Num sy
        \<and> kp_x (keypoints pose ! NOSE_KEYPOINT) = Num a
        \<and> kp_x (keypoints pose ! LEFT_SHOULDER_KEYPOINT) = Num b
        \<and> kp_x (keypoints pose ! RIGHT_SHOULDER_KEYPOINT) = Num c
        \<and> kp_y (keypoints pose ! LEFT_SHOULDER_KEYPOINT) = Num ly
        \<and> kp_y (keypoints pose ! RIGHT_SHOULDER_KEYPOINT) = Num ry
        \<and> kp_y (keypoints pose ! LEFT_EAR_KEYPOINT) = Num ey
        \<and> kp_y (keypoints pose ! RIGHT_EAR_KEYPOINT) = Num fy
        \<and> kp_y (keypoints pose ! NOSE_KEYPOINT) = Num ny
        \<and> c \<noteq> b \<and> (ey + fy) / 2 \<noteq> (ly + ry) / 2"
    then have ready: "poseDetector app" "cameraLoaded app" and len: "7 \<le> length (keypoints pose)"
      and st: "xInput app = Num sx" "yInput app = Num sy"
      by simp_all
    from h have xs: "kp_x (keypoints pose ! 0) = Num a" "kp_x (keypoints pose ! 5) = Num b"
      "kp_x (keypoints pose ! 6) = Num c"
      and ys: "kp_y (keypoints pose ! 5) = Num ly" "kp_y (keypoints pose ! 6) = Num ry"
      "kp_y (keypoints pose ! 3) = Num ey" "kp_y (keypoints pose ! 4) = Num fy"
      "kp_y (keypoints pose ! 0) = Num ny"
      and ne: "c \<noteq> b" "(ey + fy) / 2 \<noteq> (ly + ry) / 2"
      by (simp_all add: keypoint_indices)
    have fx: "finiteNum (xRatio (keypoints pose ! 0) (keypoints pose ! 5) (keypoints pose ! 6))"
      by (simp add: xRatio_finite(1) [OF xs ne(1)])
    have fy: "finiteNum (yClamped (keypoints pose ! 5) (keypoints pose ! 6) (keypoints pose ! 3)
        (keypoints pose ! 4) (keypoints pose ! 0))"
      by (simp add: yClamped_finite(1) [OF ys refl refl ne(2)])
    have raws: "\<forall>v \<in> set (xArgs (fst (pushes [pose]))) \<union> set (yArgs (fst (pushes [pose]))).
        finiteNum v"
      using fx fy by (simp add: pushes_one [OF len] Let_def)
    have "finiteNum (xInput (fold exec (fst (pushes [pose])) app))
        \<and> finiteNum (yInput (fold exec (fst (pushes [pose])) app))"
      using fx fy st
      by (simp add: pushes_one [OF len] Let_def pushXInput_def pushYInput_def push_finite)
    moreover have "runPrediction app [pose] = Returned (fold exec (fst (pushes [pose])) app)"
      by (simp add: runPrediction_pushes [OF ready] pushes_one [OF len] Let_def)
    ultimately show "(\<forall>v \<in> set (xArgs (fst (pushes [pose]))) \<union> set (yArgs (fst (pushes [pose]))).
              finiteNum v)
          \<and> (\<exists>app'. runPrediction app [pose] = Returned app'
                \<and> finiteNum (xInput app') \<and> finiteNum (yInput app'))"
      using raws by blast
  qed
  have necessary: "7 \<le> length (keypoints pose)
        \<and> meetsThreshold (keypoints pose ! NOSE_KEYPOINT)
        \<and> meetsThreshold (keypoints pose ! LEFT_SHOULDER_KEYPOINT)
        \<and> meetsThreshold (keypoints pose ! RIGHT_SHOULDER_KEYPOINT)
        \<and> kp_x (keypoints pose ! NOSE_KEYPOINT) = Num a
        \<and> kp_x (keypoints pose ! LEFT_SHOULDER_KEYPOINT) = Num b
        \<and> kp_x (keypoints pose ! RIGHT_SHOULDER_KEYPOINT) = Num c
        \<and> c = b \<longrightarrow>
        (\<exists>v. xArgs (fst (pushes [pose])) = [v] \<and> \<not> finiteNum v)"
  proof
    assume h: "7 \<le> length (keypoints pose)
        \<and> meetsThreshold (keypoints pose ! NOSE_KEYPOINT)
        \<and> meetsThreshold (keypoints pose ! LEFT_SHOULDER_KEYPOINT)
        \<and> meetsThreshold (keypoints pose ! RIGHT_SHOULDER_KEYPOINT)
        \<and> kp_x (keypoints pose ! NOSE_KEYPOINT) = Num a
        \<and> kp_x (keypoints pose ! LEFT_SHOULDER_KEYPOINT) = Num b
        \<and> kp_x (keypoints pose ! RIGHT_SHOULDER_KEYPOINT) = Num c
        \<and> c = b"
    then have len: "7 \<le> length (keypoints pose)"
      and gates: "meetsThreshold (keypoints pose ! 0)" "meetsThreshold (keypoints pose ! 5)"
        "meetsThreshold (keypoints pose ! 6)"
      and xs: "kp_x (keypoints pose ! 0) = Num a" "kp_x (keypoints pose ! 5) = Num b"
        "kp_x (keypoints pose ! 6) = Num c"
      and eq: "c = b"
      by (simp_all add: keypoint_indices)
    show "\<exists>v. xArgs (fst (pushes [pose])) = [v] \<and> \<not> finiteNum v"
      using gates xRatio_finite(2) [OF xs eq]
      by (simp add: pushes_one [OF len] Let_def)
  qed
  have saturated: "7 \<le> length (keypoints pose)
        \<and> meetsThreshold (keypoints pose ! NOSE_KEYPOINT)
        \<and> meetsThreshold (keypoints pose ! LEFT_EAR_KEYPOINT)
        \<and> meetsThreshold (keypoints pose ! RIGHT_EAR_KEYPOINT)
        \<and> meetsThreshold (keypoints pose ! LEFT_SHOULDER_KEYPOINT)
        \<and> meetsThreshold (keypoints pose ! RIGHT_SHOULDER_KEYPOINT)
        \<and> kp_y (keypoints pose ! LEFT_SHOULDER_KEYPOINT) = Num ly
        \<and> kp_y (keypoints pose ! RIGHT_SHOULDER_KEYPOINT) = Num ry
        \<and> kp_y (keypoints pose ! LEFT_EAR_KEYPOINT) = Num ey
        \<and> kp_y (keypoints pose ! RIGHT_EAR_KEYPOINT) = Num fy
        \<and> kp_y (keypoints pose ! NOSE_KEYPOINT) = Num ny
        \<and> (ey + fy) / 2 = (ly + ry) / 2 \<longrightarrow>
        (\<exists>v. yArgs (fst (pushes [pose])) = [v] \<and> (v = NaN \<or> v = Num 0 \<or> v = Num 1))"
  proof
    assume h: "7 \<le> length (keypoints pose)
        \<and> meetsThreshold (keypoints pose ! NOSE_KEYPOINT)
        \<and> meetsThreshold (keypoints pose ! LEFT_EAR_KEYPOINT)
        \<and> meetsThreshold (keypoints pose ! RIGHT_EAR_KEYPOINT)
        \<and> meetsThreshold (keypoints pose ! LEFT_SHOULDER_KEYPOINT)
        \<and> meetsThreshold (keypoints pose ! RIGHT_SHOULDER_KEYPOINT)
        \<and> kp_y (keypoints pose ! LEFT_SHOULDER_KEYPOINT) = Num ly
        \<and> kp_y (keypoints pose ! RIGHT_SHOULDER_KEYPOINT) = Num ry
        \<and> kp_y (keypoints pose ! LEFT_EAR_KEYPOINT) = Num ey
        \<and> kp_y (keypoints pose ! RIGHT_EAR_KEYPOINT) = Num fy
        \<and> kp_y (keypoints pose ! NOSE_KEYPOINT) = Num ny
        \<and> (ey + fy) / 2 = (ly + ry) / 2"
    then have len: "7 \<le> length (keypoints pose)"
      and gates: "meetsThreshold (keypoints pose ! 0)" "meetsThreshold (keypoints pose ! 3)"
        "meetsThreshold (keypoints pose ! 4)" "meetsThreshold (keypoints pose ! 5)"
        "meetsThreshold (keypoints pose ! 6)"
      and ys: "kp_y (keypoints pose ! 5) = Num ly" "kp_y (keypoints pose ! 6) = Num ry"
        "kp_y (keypoints pose ! 3) = Num ey" "kp_y (keypoints pose ! 4) = Num fy"
        "kp_y (keypoints pose ! 0) = Num ny"
      and eq: "(ey + fy) / 2 = (ly + ry) / 2"
      by (simp_all add: keypoint_indices)
    show "\<exists>v. yArgs (fst (pushes [pose])) = [v] \<and> (v = NaN \<or> v = Num 0 \<or> v = Num 1)"
      using gates yClamped_zero_divisor [OF ys eq]
      by (simp add: pushes_one [OF len] Let_def)
  qed
  show ?thesis
    by (rule conjI [OF horizontal conjI [OF vertical conjI [OF sufficient
          conjI [OF necessary saturated]]]])
qed

theorem unguarded_divisions_witness:
  "(\<exists>app'. runPrediction readyApp [centredPose] = Returned app'
        \<and> finiteNum (xInput app') \<and> finiteNum (yInput app'))
   \<and> (\<exists>v. xArgs (fst (pushes [sidewaysPose])) = [v] \<and> \<not> finiteNum v)
   \<and> (\<exists>v. yArgs (fst (pushes [collapsedPose])) = [v] \<and> (v = NaN \<or> v = Num 0 \<or> v = Num 1))"
proof -
  have "\<exists>app'. runPrediction readyApp [centredPose] = Returned app'
        \<and> finiteNum (xInput app') \<and> finiteNum (yInput app')"
    using unguarded_divisions [of readyApp centredPose "1 / 2" "1 / 2" 300 400 200
        300 300 100 100 100, THEN conjunct2, THEN conjunct2, THEN conjunct1]
    by (simp add: readyApp_def centredPose_def keypoint_indices keypoint_def)
  moreover have "\<exists>v. xArgs (fst (pushes [sidewaysPose])) = [v] \<and> \<not> finiteNum v"
    using unguarded_divisions [of readyApp sidewaysPose "1 / 2" "1 / 2" 300 200 200
        300 300 100 100 100, THEN conjunct2, THEN conjunct2, THEN conjunct2, THEN conjunct1]
    by (simp add: sidewaysPose_def keypoint_indices meets_keypoint) (simp add: keypoint_def)
  moreover have "\<exists>v. yArgs (fst (pushes [collapsedPose])) = [v]
      \<and> (v = NaN \<or> v = Num 0 \<or> v = Num 1)"
    using unguarded_divisions [of readyApp collapsedPose "1 / 2" "1 / 2" 0 0 0
        0 0 0 0 0, THEN conjunct2, THEN conjunct2, THEN conjunct2, THEN conjunct2]
    by (simp add: collapsedPose_def keypoint_indices meets_keypoint numeral_eq_Suc)
       (simp add: keypoint_def)
  ultimately show ?thesis by simp
qed

end
